theory Spec2Isabelle
  imports Main
begin

section \<open>Values exchanged with the platform\<close>

text \<open>
  The notification module is written in TypeScript against two collaborators: the
  platform notification center (\<open>expo-notifications\<close>) and the database module
  (\<open>./database\<close>). Values of type \<open>any\<close> are modelled by a small JSON-like datatype;
  a thrown value is an \<open>error\<close>.
\<close>

datatype jsvalue =
    JUndefined
  | JNull
  | JBool bool
  | JNum int
  | JStr string
  | JObj "(string \<times> jsvalue) list"

datatype error = Error string

datatype notification_type = signal | achievement | announcement | alert

datatype PermissionStatus = granted | denied | undetermined

text \<open>The interface \<open>PushNotificationData\<close>; an absent \<open>data\<close> is \<open>JUndefined\<close>.\<close>

record PushNotificationData =
  type :: notification_type
  title :: string
  message :: string
  data :: jsvalue

text \<open>The argument of \<open>Notifications.scheduleNotificationAsync\<close>; the trigger \<open>null\<close>
  (send immediately) is \<open>None\<close>.\<close>

record NotificationContent =
  content_title :: string
  content_body :: string
  content_data :: jsvalue

record NotificationRequestInput =
  input_content :: NotificationContent
  trigger :: "nat option"

text \<open>The argument of \<open>upsertUserProfile\<close>.\<close>

record UserProfileFields =
  user_id :: string
  fcm_token :: string
  device_type :: string
  app_version :: string

text \<open>The argument of \<open>createNotification\<close>.\<close>

record NotificationFields =
  n_type :: notification_type
  n_title :: string
  n_message :: string
  n_data :: jsvalue

text \<open>What the platform hands to the two listeners: the tapped notification is reached
  as \<open>response.notification.request.content.data\<close>.\<close>

record NotificationRequest =
  content :: NotificationContent

record Notification =
  request :: NotificationRequest

record NotificationResponse =
  notification :: Notification

text \<open>A handle returned by the platform when a listener is added.\<close>

datatype event_name = NotificationReceived | NotificationResponseReceived

record Subscription =
  sub_id :: nat
  sub_event :: event_name

text \<open>The durable record kept behind \<open>createNotification\<close>.\<close>

record NotificationRecord =
  rec_id :: nat
  kind :: notification_type
  rec_title :: string
  rec_message :: string
  payload :: jsvalue
  created_at :: nat
  read :: bool

section \<open>Effects\<close>

text \<open>
  Every call the module makes to a collaborator, and every console line, is recorded in
  order in a trace.
\<close>

datatype logarg =
    LStr string
  | LVal jsvalue
  | LNotification Notification
  | LResponse NotificationResponse

datatype event =
    GetPermissionsAsync
  | RequestPermissionsAsync
  | GetExpoPushTokenAsync
  | UpsertUserProfile UserProfileFields
  | ScheduleNotificationAsync NotificationRequestInput
  | CreateNotification NotificationFields
  | AddNotificationReceivedListener
  | AddNotificationResponseReceivedListener
  | RemoveNotificationSubscription Subscription
  | ConsoleLog string "logarg list"
  | ConsoleError string error

text \<open>
  The collaborators are parameters: \<open>OS\<close> is \<open>Platform.OS\<close>, and each other field
  is what the corresponding call answers, a value or a thrown error.
\<close>

record world =
  OS :: string
  getPermissionsAsync :: "error + PermissionStatus"
  requestPermissionsAsync :: "error + PermissionStatus"
  getExpoPushTokenAsync :: "error + string"
  upsertUserProfile :: "UserProfileFields \<Rightarrow> error + unit"
  scheduleNotificationAsync :: "NotificationRequestInput \<Rightarrow> error + string"
  createNotification_failure :: "NotificationFields \<Rightarrow> error option"
  removeSubscription :: "Subscription \<Rightarrow> Subscription list \<Rightarrow> error + Subscription list"

record state =
  trace :: "event list"
  store :: "NotificationRecord list"
  clock :: nat
  subscriptions :: "Subscription list"
  next_sub :: nat

text \<open>An asynchronous function either returns a value or throws, and changes the state.\<close>

type_synonym 'a io = "state \<Rightarrow> (error + 'a) \<times> state"

definition io_return :: "'a \<Rightarrow> 'a io" where
  "io_return x s = (Inr x, s)"

definition io_bind :: "'a io \<Rightarrow> ('a \<Rightarrow> 'b io) \<Rightarrow> 'b io" where
  "io_bind m f s = (case m s of (Inl e, s') \<Rightarrow> (Inl e, s') | (Inr x, s') \<Rightarrow> f x s')"

definition try_catch :: "'a io \<Rightarrow> (error \<Rightarrow> 'a io) \<Rightarrow> 'a io" where
  "try_catch m h s = (case m s of (Inl e, s') \<Rightarrow> h e s' | (Inr x, s') \<Rightarrow> (Inr x, s'))"

definition call_platform :: "event \<Rightarrow> error + 'a \<Rightarrow> 'a io" where
  "call_platform ev answer s = (answer, s\<lparr>trace := trace s @ [ev]\<rparr>)"

definition console_log :: "string \<Rightarrow> logarg list \<Rightarrow> unit io" where
  "console_log msg args s = (Inr (), s\<lparr>trace := trace s @ [ConsoleLog msg args]\<rparr>)"

definition console_error :: "string \<Rightarrow> error \<Rightarrow> unit io" where
  "console_error msg e s = (Inr (), s\<lparr>trace := trace s @ [ConsoleError msg e]\<rparr>)"

text \<open>What running \<open>m\<close> from \<open>s\<close> returns, and the events it adds to the trace.\<close>

definition result_of :: "'a io \<Rightarrow> state \<Rightarrow> error + 'a" where
  "result_of m s = fst (m s)"

definition events_of :: "'a io \<Rightarrow> state \<Rightarrow> event list" where
  "events_of m s = drop (length (trace s)) (trace (snd (m s)))"

section \<open>PermissionGate: \<open>requestNotificationPermissions\<close>\<close>

definition requestNotificationPermissions :: "world \<Rightarrow> bool io" where
  "requestNotificationPermissions w =
     (if OS w = ''web'' then io_return False
      else try_catch
        (io_bind (call_platform GetPermissionsAsync (getPermissionsAsync w)) (\<lambda>existingStatus.
         io_bind (if existingStatus \<noteq> granted
                  then call_platform RequestPermissionsAsync (requestPermissionsAsync w)
                  else io_return existingStatus) (\<lambda>finalStatus.
         io_return (finalStatus = granted))))
        (\<lambda>e. io_bind (console_error ''Error requesting notification permissions:'' e) (\<lambda>_.
         io_return False)))"

section \<open>TokenRegistrar: \<open>registerForPushNotifications\<close>\<close>

definition registerForPushNotifications :: "world \<Rightarrow> string \<Rightarrow> string option io" where
  "registerForPushNotifications w userId =
     try_catch
       (io_bind (requestNotificationPermissions w) (\<lambda>hasPermission.
        if \<not> hasPermission
        then io_bind (console_log ''Notification permissions not granted'' []) (\<lambda>_.
             io_return None)
        else if OS w = ''web'' then io_return None
        else
          io_bind (call_platform GetExpoPushTokenAsync (getExpoPushTokenAsync w)) (\<lambda>token.
          let fields = \<lparr>user_id = userId, fcm_token = token, device_type = OS w,
                         app_version = ''1.0.0''\<rparr> in
          io_bind (call_platform (UpsertUserProfile fields) (upsertUserProfile w fields)) (\<lambda>_.
          io_bind (console_log ''Push notification token registered:'' [LStr token]) (\<lambda>_.
          io_return (Some token))))))
       (\<lambda>e. io_bind (console_error ''Error registering for push notifications:'' e) (\<lambda>_.
        io_return None))"

section \<open>NotificationDispatcher: \<open>sendLocalNotification\<close>\<close>

text \<open>
  Modelled from the spec: \<open>createNotification\<close> of the database module, which is not
  among the sources. It takes the fields \<open>type\<close>, \<open>title\<close>, \<open>message\<close>, \<open>data\<close> and
  makes a record, assigning \<open>id\<close>, \<open>created_at\<close> and \<open>read = false\<close>; whether the call
  fails is left to the world.
\<close>

definition createNotification :: "world \<Rightarrow> NotificationFields \<Rightarrow> NotificationRecord io" where
  "createNotification w f s =
     (let s1 = s\<lparr>trace := trace s @ [CreateNotification f]\<rparr> in
      case createNotification_failure w f of
        Some e \<Rightarrow> (Inl e, s1)
      | None \<Rightarrow>
          (let r = \<lparr>rec_id = length (store s1), kind = n_type f, rec_title = n_title f,
                    rec_message = n_message f, payload = n_data f,
                    created_at = clock s1, read = False\<rparr>
           in (Inr r, s1\<lparr>store := store s1 @ [r]\<rparr>)))"

definition sendLocalNotification :: "world \<Rightarrow> PushNotificationData \<Rightarrow> unit io" where
  "sendLocalNotification w d =
     try_catch
       (let req = \<lparr>input_content = \<lparr>content_title = title d, content_body = message d,
                                     content_data = data d\<rparr>,
                   trigger = None\<rparr> in
        io_bind (call_platform (ScheduleNotificationAsync req) (scheduleNotificationAsync w req)) (\<lambda>_.
        io_bind (createNotification w \<lparr>n_type = type d, n_title = title d,
                                      n_message = message d, n_data = data d\<rparr>) (\<lambda>_.
        io_return ())))
       (\<lambda>e. console_error ''Error sending local notification:'' e)"

definition testData :: PushNotificationData where
  "testData =
     \<lparr>type = signal, title = ''Test Signal Alert'',
      message = ''This is a test notification from your trading app!'',
      data = JObj [(''signal_id'', JStr ''test-123''), (''pair'', JStr ''XAU/USD'')]\<rparr>"

definition sendTestNotification :: "world \<Rightarrow> unit io" where
  "sendTestNotification w = sendLocalNotification w testData"

section \<open>ListenerHub: \<open>setupNotificationListeners\<close>\<close>

text \<open>
  Reading a property of an \<open>any\<close> value, as \<open>data?.type\<close> does: \<open>undefined\<close> when
  the value is \<open>null\<close> or \<open>undefined\<close>, or has no such property. (The two keys read
  by the module, \<open>type\<close> and \<open>signal_id\<close>, are not properties of any primitive.)
\<close>

definition optional_get :: "jsvalue \<Rightarrow> string \<Rightarrow> jsvalue" where
  "optional_get v k =
     (case v of
        JObj kvs \<Rightarrow> (case map_of kvs k of Some x \<Rightarrow> x | None \<Rightarrow> JUndefined)
      | _ \<Rightarrow> JUndefined)"

fun truthy :: "jsvalue \<Rightarrow> bool" where
  "truthy JUndefined = False"
| "truthy JNull = False"
| "truthy (JBool b) = b"
| "truthy (JNum n) = (n \<noteq> 0)"
| "truthy (JStr s) = (s \<noteq> [])"
| "truthy (JObj kvs) = True"

text \<open>The two listener bodies.\<close>

definition notificationListener_callback :: "Notification \<Rightarrow> unit io" where
  "notificationListener_callback n = console_log ''Notification received:'' [LNotification n]"

definition responseListener_callback :: "NotificationResponse \<Rightarrow> unit io" where
  "responseListener_callback response =
     io_bind (console_log ''Notification response:'' [LResponse response]) (\<lambda>_.
     let d = content_data (content (request (notification response))) in
     if optional_get d ''type'' = JStr ''signal'' \<and> truthy (optional_get d ''signal_id'')
     then console_log ''Navigate to signal:'' [LVal (optional_get d ''signal_id'')]
     else io_return ())"

text \<open>
  Adding a listener: the platform hands back a fresh subscription and keeps it active.
  The listener attached to a subscription is the one the module passes for that event:
  \<open>notificationListener_callback\<close> for \<open>NotificationReceived\<close>,
  \<open>responseListener_callback\<close> for \<open>NotificationResponseReceived\<close>.
\<close>

definition addListener :: "event \<Rightarrow> event_name \<Rightarrow> Subscription io" where
  "addListener ev nm s =
     (let sub = \<lparr>sub_id = next_sub s, sub_event = nm\<rparr>
      in (Inr sub, s\<lparr>trace := trace s @ [ev],
                      subscriptions := subscriptions s @ [sub],
                      next_sub := Suc (next_sub s)\<rparr>))"

definition addNotificationReceivedListener :: "Subscription io" where
  "addNotificationReceivedListener = addListener AddNotificationReceivedListener NotificationReceived"

definition addNotificationResponseReceivedListener :: "Subscription io" where
  "addNotificationResponseReceivedListener =
     addListener AddNotificationResponseReceivedListener NotificationResponseReceived"

text \<open>Removing a subscription is the platform's business: the world says what is left
  active, or throws.\<close>

definition removeNotificationSubscription :: "world \<Rightarrow> Subscription \<Rightarrow> unit io" where
  "removeNotificationSubscription w sub s =
     (let s1 = s\<lparr>trace := trace s @ [RemoveNotificationSubscription sub]\<rparr> in
      case removeSubscription w sub (subscriptions s1) of
        Inl e \<Rightarrow> (Inl e, s1)
      | Inr subs \<Rightarrow> (Inr (), s1\<lparr>subscriptions := subs\<rparr>))"

text \<open>
  \<open>setupNotificationListeners\<close> takes no argument and returns a closure over the two
  subscriptions; the closure is modelled by the pair it captures, and calling it is
  \<open>teardown\<close>.
\<close>

definition setupNotificationListeners :: "(Subscription \<times> Subscription) io" where
  "setupNotificationListeners =
     io_bind addNotificationReceivedListener (\<lambda>notificationListener.
     io_bind addNotificationResponseReceivedListener (\<lambda>responseListener.
     io_return (notificationListener, responseListener)))"

definition teardown :: "world \<Rightarrow> Subscription \<times> Subscription \<Rightarrow> unit io" where
  "teardown w c =
     io_bind (removeNotificationSubscription w (fst c)) (\<lambda>_.
     removeNotificationSubscription w (snd c))"

text \<open>
  The tap handler as the specification words it, for comparison with
  \<open>responseListener_callback\<close>: the payload of the tapped notification is handed,
  as it is, to the handler \<open>onOpened\<close> supplied by the caller.
\<close>

definition spec_onOpened_forwarding :: "(jsvalue \<Rightarrow> unit io) \<Rightarrow> NotificationResponse \<Rightarrow> unit io" where
  "spec_onOpened_forwarding onOpened response =
     onOpened (content_data (content (request (notification response))))"

section \<open>The listing component: \<open>NotificationSheet\<close>\<close>

record SheetNotification =
  item_id :: string
  item_type :: string
  item_title :: string
  item_message :: string
  item_timestamp :: string
  item_read :: bool
  item_reached :: nat

definition notifications :: "SheetNotification list" where
  "notifications =
     [\<lparr>item_id = ''1'', item_type = ''signal'', item_title = ''Signal Closed - Profit!'',
       item_message = ''XAU/USD BUY signal closed with +$245 profit'',
       item_timestamp = ''2 hours ago'', item_read = False, item_reached = 13\<rparr>,
      \<lparr>item_id = ''2'', item_type = ''achievement'', item_title = ''Streak Achievement!'',
       item_message = ''You've hit a 5-day winning streak!'',
       item_timestamp = ''1 day ago'', item_read = False, item_reached = 14\<rparr>,
      \<lparr>item_id = ''3'', item_type = ''signal'', item_title = ''New Signal Available'',
       item_message = ''XAG/USD SELL signal just published'',
       item_timestamp = ''2 days ago'', item_read = True, item_reached = 16\<rparr>,
      \<lparr>item_id = ''4'', item_type = ''announcement'', item_title = ''Market Update'',
       item_message = ''Gold showing strong bullish momentum this week'',
       item_timestamp = ''3 days ago'', item_read = True, item_reached = 24\<rparr>,
      \<lparr>item_id = ''5'', item_type = ''alert'', item_title = ''Stop Loss Hit'',
       item_message = ''XAG/USD position closed at stop loss'',
       item_timestamp = ''1 week ago'', item_read = True, item_reached = 50\<rparr>]"

datatype icon = TrendingUp | Award | Bell | AlertCircle

definition getNotificationIcon :: "string \<Rightarrow> icon" where
  "getNotificationIcon t =
     (if t = ''signal'' then TrendingUp
      else if t = ''achievement'' then Award
      else if t = ''announcement'' then Bell
      else if t = ''alert'' then AlertCircle
      else Bell)"

definition getTimeAgo :: "string \<Rightarrow> string" where
  "getTimeAgo timestamp = timestamp"

text \<open>One row of the list: the unread style and the unread dot are shown when \<open>read\<close>
  is false. The row has no press handler.\<close>

record row =
  row_key :: string
  row_unread_style :: bool
  row_icon :: icon
  row_title :: string
  row_message :: string
  row_time :: string
  row_reached :: nat
  row_unread_dot :: bool

definition render_row :: "SheetNotification \<Rightarrow> row" where
  "render_row n =
     \<lparr>row_key = item_id n, row_unread_style = (\<not> item_read n),
      row_icon = getNotificationIcon (item_type n), row_title = item_title n,
      row_message = item_message n, row_time = getTimeAgo (item_timestamp n),
      row_reached = item_reached n, row_unread_dot = (\<not> item_read n)\<rparr>"

text \<open>Rendering reads the constant list and nothing else; the result is whether the
  modal is visible, and its rows.\<close>

definition NotificationSheet :: "bool \<Rightarrow> (bool \<times> row list) io" where
  "NotificationSheet visible = io_return (visible, map render_row notifications)"

section \<open>The operations of the subsystem\<close>

datatype operation =
    RequestPermission
  | Register string
  | Dispatch PushNotificationData
  | DispatchTest
  | Attach
  | Teardown "Subscription \<times> Subscription"
  | OnReceived Notification
  | OnTapped NotificationResponse
  | ShowSheet bool

fun run_op :: "world \<Rightarrow> operation \<Rightarrow> state \<Rightarrow> state" where
  "run_op w RequestPermission s = snd (requestNotificationPermissions w s)"
| "run_op w (Register userId) s = snd (registerForPushNotifications w userId s)"
| "run_op w (Dispatch d) s = snd (sendLocalNotification w d s)"
| "run_op w DispatchTest s = snd (sendTestNotification w s)"
| "run_op w Attach s = snd (setupNotificationListeners s)"
| "run_op w (Teardown c) s = snd (teardown w c s)"
| "run_op w (OnReceived n) s = snd (notificationListener_callback n s)"
| "run_op w (OnTapped r) s = snd (responseListener_callback r s)"
| "run_op w (ShowSheet visible) s = snd (NotificationSheet visible s)"

fun run_ops :: "(world \<times> operation) list \<Rightarrow> state \<Rightarrow> state" where
  "run_ops [] s = s"
| "run_ops ((w, op) # ops) s = run_ops ops (run_op w op s)"

section \<open>Reading a trace\<close>

fun created :: "event list \<Rightarrow> NotificationFields list" where
  "created [] = []"
| "created (CreateNotification f # es) = f # created es"
| "created (_ # es) = created es"

fun upserted :: "event list \<Rightarrow> UserProfileFields list" where
  "upserted [] = []"
| "upserted (UpsertUserProfile f # es) = f # upserted es"
| "upserted (_ # es) = upserted es"

section \<open>Concrete worlds and inputs\<close>

definition init_state :: state where
  "init_state = \<lparr>trace = [], store = [], clock = 0, subscriptions = [], next_sub = 0\<rparr>"

text \<open>A phone on which every call succeeds: the user has not yet decided and grants
  the permission when asked.\<close>

definition ios_world :: world where
  "ios_world =
     \<lparr>OS = ''ios'',
      getPermissionsAsync = Inr undetermined,
      requestPermissionsAsync = Inr granted,
      getExpoPushTokenAsync = Inr ''ExponentPushToken[xyz]'',
      upsertUserProfile = (\<lambda>_. Inr ()),
      scheduleNotificationAsync = (\<lambda>_. Inr ''local-1''),
      createNotification_failure = (\<lambda>_. None),
      removeSubscription = (\<lambda>sub subs. Inr (removeAll sub subs))\<rparr>"

definition web_world :: world where
  "web_world = ios_world\<lparr>OS := ''web''\<rparr>"

text \<open>Worlds in which one call fails or the user refuses.\<close>

definition denied_world :: world where
  "denied_world = ios_world\<lparr>requestPermissionsAsync := Inr denied\<rparr>"

definition permission_error_world :: world where
  "permission_error_world =
     ios_world\<lparr>requestPermissionsAsync := Inl (Error ''permission API failed'')\<rparr>"

definition upsert_fails_world :: world where
  "upsert_fails_world =
     ios_world\<lparr>upsertUserProfile := (\<lambda>_. Inl (Error ''profile store unavailable''))\<rparr>"

definition display_fails_world :: world where
  "display_fails_world =
     ios_world\<lparr>scheduleNotificationAsync := (\<lambda>_. Inl (Error ''display refused''))\<rparr>"

definition persist_fails_world :: world where
  "persist_fails_world =
     ios_world\<lparr>createNotification_failure := (\<lambda>_. Some (Error ''insert failed''))\<rparr>"

text \<open>A platform whose removal throws when the subscription it is given is not active.\<close>

definition strict_world :: world where
  "strict_world =
     ios_world\<lparr>removeSubscription :=
       (\<lambda>sub subs. if sub \<in> set subs then Inr (removeAll sub subs)
                    else Inl (Error ''not subscribed''))\<rparr>"

text \<open>The closure returned by the first attachment of a session, and a state in which
  only its first subscription is still active.\<close>

definition first_attachment :: "Subscription \<times> Subscription" where
  "first_attachment =
     (\<lparr>sub_id = 0, sub_event = NotificationReceived\<rparr>,
      \<lparr>sub_id = 1, sub_event = NotificationResponseReceived\<rparr>)"

definition half_attached_state :: state where
  "half_attached_state =
     init_state\<lparr>subscriptions := [\<lparr>sub_id = 0, sub_event = NotificationReceived\<rparr>]\<rparr>"

text \<open>A tap on a notification whose payload names a signal, and a handler a caller
  might supply, which records the payload it is given.\<close>

definition tap_on_signal :: NotificationResponse where
  "tap_on_signal =
     \<lparr>notification = \<lparr>request = \<lparr>content =
        \<lparr>content_title = ''Test Signal Alert'',
         content_body = ''This is a test notification from your trading app!'',
         content_data = JObj [(''type'', JStr ''signal''), (''signal_id'', JStr ''test-123'')]\<rparr>\<rparr>\<rparr>\<rparr>"

definition recording_onOpened :: "jsvalue \<Rightarrow> unit io" where
  "recording_onOpened p = console_log ''onOpened'' [LVal p]"

text \<open>A store that already holds one record, marked read, and a short session: a test
  notification is dispatched, a notification is tapped, the sheet is shown.\<close>

definition one_read_state :: state where
  "one_read_state =
     init_state\<lparr>store := [\<lparr>rec_id = 0, kind = alert, rec_title = ''Stop Loss Hit'',
                              rec_message = ''XAG/USD position closed at stop loss'',
                              payload = JUndefined, created_at = 0, read = True\<rparr>],
                 clock := 7\<rparr>"

definition session_ops :: "(world \<times> operation) list" where
  "session_ops =
     [(ios_world, DispatchTest), (ios_world, OnTapped tap_on_signal), (ios_world, ShowSheet True)]"

section \<open>Unfolding the four entry points\<close>

lemmas io_defs =
  io_return_def io_bind_def try_catch_def call_platform_def console_log_def console_error_def

lemma upserted_append: "upserted (xs @ ys) = upserted xs @ upserted ys"
  by (induction xs rule: upserted.induct) simp_all

lemma requestNotificationPermissions_web:
  "OS w = ''web'' \<Longrightarrow> requestNotificationPermissions w s = (Inr False, s)"
  by (simp add: requestNotificationPermissions_def io_return_def)

lemma requestNotificationPermissions_native:
  "OS w \<noteq> ''web'' \<Longrightarrow> requestNotificationPermissions w s =
    (case getPermissionsAsync w of
       Inl e \<Rightarrow> (Inr False, s\<lparr>trace := trace s @ [GetPermissionsAsync,
                   ConsoleError ''Error requesting notification permissions:'' e]\<rparr>)
     | Inr existingStatus \<Rightarrow>
         if existingStatus = granted
         then (Inr True, s\<lparr>trace := trace s @ [GetPermissionsAsync]\<rparr>)
         else (case requestPermissionsAsync w of
                 Inl e \<Rightarrow> (Inr False, s\<lparr>trace := trace s @ [GetPermissionsAsync,
                            RequestPermissionsAsync,
                            ConsoleError ''Error requesting notification permissions:'' e]\<rparr>)
               | Inr status \<Rightarrow> (Inr (status = granted),
                            s\<lparr>trace := trace s @ [GetPermissionsAsync, RequestPermissionsAsync]\<rparr>)))"
  by (simp add: requestNotificationPermissions_def io_defs split: sum.splits)

text \<open>The permission gate always returns, and touches nothing but the trace.\<close>

lemma requestNotificationPermissions_total:
  "\<exists>b evs. requestNotificationPermissions w s = (Inr b, s\<lparr>trace := trace s @ evs\<rparr>)
     \<and> GetExpoPushTokenAsync \<notin> set evs \<and> upserted evs = []"
proof (cases "OS w = ''web''")
  case True
  then have "requestNotificationPermissions w s = (Inr False, s\<lparr>trace := trace s @ []\<rparr>)"
    by (simp add: requestNotificationPermissions_web)
  then show ?thesis by (metis empty_iff list.set(1) upserted.simps(1))
next
  case False
  then show ?thesis
    by (auto simp add: requestNotificationPermissions_native split: sum.splits)
qed

lemma registerForPushNotifications_unfold:
  assumes "requestNotificationPermissions w s = (Inr hasPermission, s1)"
  shows "registerForPushNotifications w userId s =
    (if \<not> hasPermission
     then (Inr None, s1\<lparr>trace := trace s1 @ [ConsoleLog ''Notification permissions not granted'' []]\<rparr>)
     else if OS w = ''web'' then (Inr None, s1)
     else (case getExpoPushTokenAsync w of
        Inl e \<Rightarrow> (Inr None, s1\<lparr>trace := trace s1 @ [GetExpoPushTokenAsync,
                     ConsoleError ''Error registering for push notifications:'' e]\<rparr>)
      | Inr token \<Rightarrow>
         (case upsertUserProfile w \<lparr>user_id = userId, fcm_token = token, device_type = OS w,
                                     app_version = ''1.0.0''\<rparr> of
            Inl e \<Rightarrow> (Inr None, s1\<lparr>trace := trace s1 @ [GetExpoPushTokenAsync,
                        UpsertUserProfile \<lparr>user_id = userId, fcm_token = token,
                          device_type = OS w, app_version = ''1.0.0''\<rparr>,
                        ConsoleError ''Error registering for push notifications:'' e]\<rparr>)
          | Inr u \<Rightarrow> (Inr (Some token), s1\<lparr>trace := trace s1 @ [GetExpoPushTokenAsync,
                        UpsertUserProfile \<lparr>user_id = userId, fcm_token = token,
                          device_type = OS w, app_version = ''1.0.0''\<rparr>,
                        ConsoleLog ''Push notification token registered:'' [LStr token]]\<rparr>))))"
  using assms
  by (simp add: registerForPushNotifications_def io_defs Let_def split: sum.splits)

lemma sendLocalNotification_unfold:
  "sendLocalNotification w d s =
    (let req = \<lparr>input_content = \<lparr>content_title = title d, content_body = message d,
                                   content_data = data d\<rparr>, trigger = None\<rparr>;
         f = \<lparr>n_type = type d, n_title = title d, n_message = message d, n_data = data d\<rparr>
     in case scheduleNotificationAsync w req of
          Inl e \<Rightarrow> (Inr (), s\<lparr>trace := trace s @ [ScheduleNotificationAsync req,
                       ConsoleError ''Error sending local notification:'' e]\<rparr>)
        | Inr x \<Rightarrow>
           (case createNotification_failure w f of
              Some e \<Rightarrow> (Inr (), s\<lparr>trace := trace s @ [ScheduleNotificationAsync req,
                           CreateNotification f,
                           ConsoleError ''Error sending local notification:'' e]\<rparr>)
            | None \<Rightarrow> (Inr (), s\<lparr>trace := trace s @ [ScheduleNotificationAsync req,
                           CreateNotification f],
                         store := store s @ [\<lparr>rec_id = length (store s), kind = type d,
                           rec_title = title d, rec_message = message d, payload = data d,
                           created_at = clock s, read = False\<rparr>]\<rparr>)))"
  by (simp add: sendLocalNotification_def createNotification_def io_defs Let_def
      split: sum.splits option.splits)

lemma setupNotificationListeners_unfold:
  "setupNotificationListeners s =
     (Inr (\<lparr>sub_id = next_sub s, sub_event = NotificationReceived\<rparr>,
           \<lparr>sub_id = Suc (next_sub s), sub_event = NotificationResponseReceived\<rparr>),
      s\<lparr>trace := trace s @ [AddNotificationReceivedListener, AddNotificationResponseReceivedListener],
        subscriptions := subscriptions s @
          [\<lparr>sub_id = next_sub s, sub_event = NotificationReceived\<rparr>,
           \<lparr>sub_id = Suc (next_sub s), sub_event = NotificationResponseReceived\<rparr>],
        next_sub := Suc (Suc (next_sub s))\<rparr>)"
  by (simp add: setupNotificationListeners_def addNotificationReceivedListener_def
      addNotificationResponseReceivedListener_def addListener_def io_defs Let_def)

lemma responseListener_callback_unfold:
  "responseListener_callback response s =
     (Inr (), s\<lparr>trace := trace s @
        ConsoleLog ''Notification response:'' [LResponse response] #
        (if optional_get (content_data (content (request (notification response)))) ''type''
              = JStr ''signal''
            \<and> truthy (optional_get (content_data (content (request (notification response))))
                 ''signal_id'')
         then [ConsoleLog ''Navigate to signal:''
                 [LVal (optional_get (content_data (content (request (notification response))))
                    ''signal_id'')]]
         else [])\<rparr>)"
  by (simp add: responseListener_callback_def io_defs Let_def)

lemma teardown_unfold:
  assumes 1: "removeSubscription w (fst c) (subscriptions s) = Inr subs1"
    and 2: "removeSubscription w (snd c) subs1 = Inr subs2"
  shows "teardown w c s = (Inr (), s\<lparr>trace := trace s @ [RemoveNotificationSubscription (fst c),
           RemoveNotificationSubscription (snd c)], subscriptions := subs2\<rparr>)"
  by (simp add: teardown_def io_bind_def removeNotificationSubscription_def Let_def 1 2)

lemma teardown_cases:
  "teardown w c s =
     (case removeSubscription w (fst c) (subscriptions s) of
        Inl e \<Rightarrow> (Inl e, s\<lparr>trace := trace s @ [RemoveNotificationSubscription (fst c)]\<rparr>)
      | Inr subs1 \<Rightarrow>
          (case removeSubscription w (snd c) subs1 of
             Inl e \<Rightarrow> (Inl e, s\<lparr>trace := trace s @ [RemoveNotificationSubscription (fst c),
                          RemoveNotificationSubscription (snd c)], subscriptions := subs1\<rparr>)
           | Inr subs2 \<Rightarrow> (Inr (), s\<lparr>trace := trace s @ [RemoveNotificationSubscription (fst c),
                          RemoveNotificationSubscription (snd c)], subscriptions := subs2\<rparr>)))"
  by (simp add: teardown_def io_bind_def removeNotificationSubscription_def Let_def
      split: sum.splits)

text \<open>Evaluating the concrete worlds.\<close>

lemmas world_defs =
  ios_world_def web_world_def denied_world_def permission_error_world_def
  upsert_fails_world_def display_fails_world_def persist_fails_world_def

section \<open>Properties of the PermissionGate\<close>

text \<open>
  C5. When \<open>Platform.OS\<close> is \<open>web\<close>, \<open>requestNotificationPermissions\<close> returns
  \<open>false\<close> and has no effect: the state is unchanged, so neither
  \<open>getPermissionsAsync\<close> nor \<open>requestPermissionsAsync\<close> is called and nothing is logged.
\<close>

theorem requestPermission_web_denied_no_effect:
  assumes "OS w = ''web''"
  shows "result_of (requestNotificationPermissions w) s = Inr False
       \<and> snd (requestNotificationPermissions w s) = s
       \<and> events_of (requestNotificationPermissions w) s = []"
  using assms
  by (simp add: requestNotificationPermissions_web result_of_def events_of_def)

theorem requestPermission_web_denied_no_effect_witness:
  "OS web_world = ''web''
   \<and> result_of (requestNotificationPermissions web_world) init_state = Inr False
   \<and> snd (requestNotificationPermissions web_world init_state) = init_state
   \<and> events_of (requestNotificationPermissions web_world) init_state = []"
proof -
  have h: "OS web_world = ''web''" by (simp add: world_defs)
  show ?thesis using h requestPermission_web_denied_no_effect [OF h, of init_state] by simp
qed

text \<open>
  C6. On a native platform (\<open>Platform.OS\<close> is not \<open>web\<close>),
  \<open>requestNotificationPermissions\<close> always returns a boolean and never throws; it reads
  the current permission state exactly once; it asks the user at most once, and it asks
  exactly when the state read is not \<open>granted\<close>; and an error thrown by either platform
  call is logged and answered with \<open>false\<close>.
\<close>

theorem requestPermission_native_fail_closed:
  assumes "OS w \<noteq> ''web''"
  shows "(\<exists>b. result_of (requestNotificationPermissions w) s = Inr b)
       \<and> count_list (events_of (requestNotificationPermissions w) s) GetPermissionsAsync = 1
       \<and> count_list (events_of (requestNotificationPermissions w) s) RequestPermissionsAsync \<le> 1
       \<and> (RequestPermissionsAsync \<in> set (events_of (requestNotificationPermissions w) s)
            \<longleftrightarrow> (\<exists>existingStatus. getPermissionsAsync w = Inr existingStatus
                   \<and> existingStatus \<noteq> granted))
       \<and> (\<forall>e. getPermissionsAsync w = Inl e
                \<or> ((\<exists>existingStatus. getPermissionsAsync w = Inr existingStatus
                      \<and> existingStatus \<noteq> granted)
                    \<and> requestPermissionsAsync w = Inl e)
             \<longrightarrow> result_of (requestNotificationPermissions w) s = Inr False
               \<and> ConsoleError ''Error requesting notification permissions:'' e
                   \<in> set (events_of (requestNotificationPermissions w) s))"
  using assms
  by (auto simp add: requestNotificationPermissions_native result_of_def events_of_def
      split: sum.splits)

theorem requestPermission_native_fail_closed_witness:
  "OS permission_error_world \<noteq> ''web''
   \<and> getPermissionsAsync permission_error_world = Inr undetermined
   \<and> requestPermissionsAsync permission_error_world = Inl (Error ''permission API failed'')
   \<and> result_of (requestNotificationPermissions permission_error_world) init_state = Inr False
   \<and> count_list (events_of (requestNotificationPermissions permission_error_world) init_state)
        GetPermissionsAsync = 1
   \<and> RequestPermissionsAsync
        \<in> set (events_of (requestNotificationPermissions permission_error_world) init_state)
   \<and> ConsoleError ''Error requesting notification permissions:'' (Error ''permission API failed'')
        \<in> set (events_of (requestNotificationPermissions permission_error_world) init_state)"
proof -
  have h: "OS permission_error_world \<noteq> ''web''" by (simp add: world_defs)
  have g: "getPermissionsAsync permission_error_world = Inr undetermined"
    "requestPermissionsAsync permission_error_world = Inl (Error ''permission API failed'')"
    by (simp_all add: world_defs)
  show ?thesis
    using h g requestPermission_native_fail_closed [OF h, of init_state] by simp
qed

section \<open>Properties of the TokenRegistrar\<close>

text \<open>
  C4. When the permission gate does not answer \<open>true\<close>, \<open>registerForPushNotifications\<close>
  returns \<open>null\<close> at once: beyond what the gate itself did it only logs one line, it
  never calls \<open>getExpoPushTokenAsync\<close> and never calls \<open>upsertUserProfile\<close>.
\<close>

theorem register_denied_no_token_call:
  assumes "result_of (requestNotificationPermissions w) s \<noteq> Inr True"
  shows "result_of (registerForPushNotifications w userId) s = Inr None
       \<and> events_of (registerForPushNotifications w userId) s
           = events_of (requestNotificationPermissions w) s
             @ [ConsoleLog ''Notification permissions not granted'' []]
       \<and> GetExpoPushTokenAsync \<notin> set (events_of (registerForPushNotifications w userId) s)
       \<and> upserted (events_of (registerForPushNotifications w userId) s) = []"
proof -
  obtain b evs where r: "requestNotificationPermissions w s = (Inr b, s\<lparr>trace := trace s @ evs\<rparr>)"
    and n: "GetExpoPushTokenAsync \<notin> set evs" "upserted evs = []"
    using requestNotificationPermissions_total by blast
  from assms r have b: "\<not> b" by (simp add: result_of_def)
  show ?thesis
    using n b
    by (simp add: registerForPushNotifications_unfold [OF r] r result_of_def events_of_def
        upserted_append)
qed

theorem register_denied_no_token_call_witness:
  "result_of (requestNotificationPermissions denied_world) init_state \<noteq> Inr True
   \<and> result_of (registerForPushNotifications denied_world ''user-1'') init_state = Inr None
   \<and> events_of (registerForPushNotifications denied_world ''user-1'') init_state
       = [GetPermissionsAsync, RequestPermissionsAsync,
          ConsoleLog ''Notification permissions not granted'' []]
   \<and> GetExpoPushTokenAsync
       \<notin> set (events_of (registerForPushNotifications denied_world ''user-1'') init_state)
   \<and> upserted (events_of (registerForPushNotifications denied_world ''user-1'') init_state) = []"
proof -
  have os: "OS denied_world \<noteq> ''web''" by (simp add: world_defs)
  have r: "requestNotificationPermissions denied_world init_state
             = (Inr False, init_state\<lparr>trace := trace init_state
                  @ [GetPermissionsAsync, RequestPermissionsAsync]\<rparr>)"
    by (simp add: requestNotificationPermissions_native [OF os]) (simp add: world_defs)
  have h: "result_of (requestNotificationPermissions denied_world) init_state \<noteq> Inr True"
    by (simp add: result_of_def r)
  have e: "events_of (requestNotificationPermissions denied_world) init_state
             = [GetPermissionsAsync, RequestPermissionsAsync]"
    by (simp add: events_of_def r)
  show ?thesis
    using h register_denied_no_token_call [OF h, of "''user-1''"] by (simp add: e)
qed

text \<open>
  C3. When the token service fails, or a token is obtained and \<open>upsertUserProfile\<close>
  then fails, \<open>registerForPushNotifications\<close> returns \<open>null\<close> and does not throw; where
  the permission was granted, the token service was called and the error is logged.
\<close>

theorem register_partial_failure_none:
  assumes "getExpoPushTokenAsync w = Inl e
         \<or> (\<exists>token. getExpoPushTokenAsync w = Inr token
              \<and> upsertUserProfile w \<lparr>user_id = userId, fcm_token = token, device_type = OS w,
                                      app_version = ''1.0.0''\<rparr> = Inl e)"
  shows "result_of (registerForPushNotifications w userId) s = Inr None
       \<and> (result_of (requestNotificationPermissions w) s = Inr True
            \<longrightarrow> GetExpoPushTokenAsync \<in> set (events_of (registerForPushNotifications w userId) s)
              \<and> ConsoleError ''Error registering for push notifications:'' e
                  \<in> set (events_of (registerForPushNotifications w userId) s))"
proof -
  obtain b evs where r: "requestNotificationPermissions w s = (Inr b, s\<lparr>trace := trace s @ evs\<rparr>)"
    using requestNotificationPermissions_total by blast
  have web: "OS w = ''web'' \<Longrightarrow> \<not> b"
    using r by (simp add: requestNotificationPermissions_web)
  show ?thesis
    using assms web
    by (auto simp add: registerForPushNotifications_unfold [OF r] r result_of_def events_of_def)
qed

theorem register_partial_failure_none_witness:
  "getExpoPushTokenAsync upsert_fails_world = Inr ''ExponentPushToken[xyz]''
   \<and> upsertUserProfile upsert_fails_world
        \<lparr>user_id = ''user-1'', fcm_token = ''ExponentPushToken[xyz]'',
         device_type = OS upsert_fails_world, app_version = ''1.0.0''\<rparr>
       = Inl (Error ''profile store unavailable'')
   \<and> result_of (requestNotificationPermissions upsert_fails_world) init_state = Inr True
   \<and> result_of (registerForPushNotifications upsert_fails_world ''user-1'') init_state = Inr None
   \<and> GetExpoPushTokenAsync
       \<in> set (events_of (registerForPushNotifications upsert_fails_world ''user-1'') init_state)
   \<and> ConsoleError ''Error registering for push notifications:'' (Error ''profile store unavailable'')
       \<in> set (events_of (registerForPushNotifications upsert_fails_world ''user-1'') init_state)"
proof -
  have os: "OS upsert_fails_world \<noteq> ''web''" by (simp add: world_defs)
  have t: "getExpoPushTokenAsync upsert_fails_world = Inr ''ExponentPushToken[xyz]''"
    by (simp add: world_defs)
  have u: "upsertUserProfile upsert_fails_world
             \<lparr>user_id = ''user-1'', fcm_token = ''ExponentPushToken[xyz]'',
              device_type = OS upsert_fails_world, app_version = ''1.0.0''\<rparr>
           = Inl (Error ''profile store unavailable'')"
    by (simp add: world_defs)
  have h: "getExpoPushTokenAsync upsert_fails_world = Inl (Error ''profile store unavailable'')
         \<or> (\<exists>token. getExpoPushTokenAsync upsert_fails_world = Inr token
              \<and> upsertUserProfile upsert_fails_world
                   \<lparr>user_id = ''user-1'', fcm_token = token,
                    device_type = OS upsert_fails_world, app_version = ''1.0.0''\<rparr>
                  = Inl (Error ''profile store unavailable''))"
    using t u by simp
  have p: "result_of (requestNotificationPermissions upsert_fails_world) init_state = Inr True"
    by (simp add: result_of_def requestNotificationPermissions_native [OF os])
       (simp add: world_defs)
  show ?thesis
    using t u p register_partial_failure_none [OF h, of init_state] by simp
qed

text \<open>
  C10. Whenever \<open>registerForPushNotifications\<close> returns a token, it made exactly one
  \<open>upsertUserProfile\<close> call, for the given user, with \<open>fcm_token\<close> the returned token,
  \<open>device_type\<close> the value of \<open>Platform.OS\<close> and \<open>app_version\<close> the string \<open>1.0.0\<close>;
  the token is the one the token service issued, and the upsert succeeded.
\<close>

theorem register_success_profile_fields:
  assumes "result_of (registerForPushNotifications w userId) s = Inr (Some token)"
  shows "upserted (events_of (registerForPushNotifications w userId) s)
           = [\<lparr>user_id = userId, fcm_token = token, device_type = OS w,
               app_version = ''1.0.0''\<rparr>]
       \<and> getExpoPushTokenAsync w = Inr token
       \<and> upsertUserProfile w \<lparr>user_id = userId, fcm_token = token, device_type = OS w,
                                app_version = ''1.0.0''\<rparr> = Inr ()"
proof -
  obtain b evs where r: "requestNotificationPermissions w s = (Inr b, s\<lparr>trace := trace s @ evs\<rparr>)"
    and n: "upserted evs = []"
    using requestNotificationPermissions_total by blast
  show ?thesis
    using assms n
    by (auto simp add: registerForPushNotifications_unfold [OF r] r result_of_def events_of_def
        upserted_append split: if_splits sum.splits)
qed

theorem register_success_profile_fields_witness:
  "result_of (registerForPushNotifications ios_world ''user-1'') init_state
     = Inr (Some ''ExponentPushToken[xyz]'')
   \<and> upserted (events_of (registerForPushNotifications ios_world ''user-1'') init_state)
       = [\<lparr>user_id = ''user-1'', fcm_token = ''ExponentPushToken[xyz]'', device_type = ''ios'',
           app_version = ''1.0.0''\<rparr>]"
proof -
  have os: "OS ios_world \<noteq> ''web''" "OS ios_world = ''ios''" by (simp_all add: world_defs)
  have r: "requestNotificationPermissions ios_world init_state
             = (Inr True, init_state\<lparr>trace := trace init_state
                  @ [GetPermissionsAsync, RequestPermissionsAsync]\<rparr>)"
    by (simp add: requestNotificationPermissions_native [OF os(1)]) (simp add: world_defs)
  have h: "result_of (registerForPushNotifications ios_world ''user-1'') init_state
             = Inr (Some ''ExponentPushToken[xyz]'')"
    by (simp add: result_of_def registerForPushNotifications_unfold [OF r] os)
       (simp add: world_defs)
  show ?thesis
    using h register_success_profile_fields [OF h] by (simp add: os)
qed

section \<open>Properties of the NotificationDispatcher\<close>

text \<open>
  C1, as amended. \<open>sendLocalNotification\<close> calls \<open>createNotification\<close> exactly once,
  with the type, title, message and data of its input, when the display call
  \<open>scheduleNotificationAsync\<close> succeeds. When the display call fails, the error is
  logged, \<open>createNotification\<close> is not called and the store is left as it was.
\<close>

theorem dispatch_persists_after_display:
  "(\<forall>x. scheduleNotificationAsync w
            \<lparr>input_content = \<lparr>content_title = title d, content_body = message d,
                               content_data = data d\<rparr>, trigger = None\<rparr> = Inr x
        \<longrightarrow> created (events_of (sendLocalNotification w d) s)
              = [\<lparr>n_type = type d, n_title = title d, n_message = message d, n_data = data d\<rparr>])
   \<and> (\<forall>e. scheduleNotificationAsync w
            \<lparr>input_content = \<lparr>content_title = title d, content_body = message d,
                               content_data = data d\<rparr>, trigger = None\<rparr> = Inl e
        \<longrightarrow> created (events_of (sendLocalNotification w d) s) = []
          \<and> store (snd (sendLocalNotification w d s)) = store s
          \<and> ConsoleError ''Error sending local notification:'' e
              \<in> set (events_of (sendLocalNotification w d) s))"
  by (simp add: sendLocalNotification_unfold events_of_def Let_def split: sum.splits option.splits)

theorem dispatch_persists_after_display_witness:
  "scheduleNotificationAsync ios_world
      \<lparr>input_content = \<lparr>content_title = title testData, content_body = message testData,
                         content_data = data testData\<rparr>, trigger = None\<rparr> = Inr ''local-1''
   \<and> created (events_of (sendLocalNotification ios_world testData) init_state)
       = [\<lparr>n_type = signal, n_title = ''Test Signal Alert'',
           n_message = ''This is a test notification from your trading app!'',
           n_data = JObj [(''signal_id'', JStr ''test-123''), (''pair'', JStr ''XAU/USD'')]\<rparr>]
   \<and> scheduleNotificationAsync display_fails_world
      \<lparr>input_content = \<lparr>content_title = title testData, content_body = message testData,
                         content_data = data testData\<rparr>, trigger = None\<rparr>
       = Inl (Error ''display refused'')
   \<and> created (events_of (sendLocalNotification display_fails_world testData) init_state) = []
   \<and> ConsoleError ''Error sending local notification:'' (Error ''display refused'')
       \<in> set (events_of (sendLocalNotification display_fails_world testData) init_state)"
proof -
  have a: "scheduleNotificationAsync ios_world
      \<lparr>input_content = \<lparr>content_title = title testData, content_body = message testData,
                         content_data = data testData\<rparr>, trigger = None\<rparr> = Inr ''local-1''"
    by (simp add: world_defs)
  have b: "scheduleNotificationAsync display_fails_world
      \<lparr>input_content = \<lparr>content_title = title testData, content_body = message testData,
                         content_data = data testData\<rparr>, trigger = None\<rparr>
       = Inl (Error ''display refused'')"
    by (simp add: world_defs)
  have t: "type testData = signal" "title testData = ''Test Signal Alert''"
    "message testData = ''This is a test notification from your trading app!''"
    "data testData = JObj [(''signal_id'', JStr ''test-123''), (''pair'', JStr ''XAU/USD'')]"
    by (simp_all add: testData_def)
  show ?thesis
    using a b
      dispatch_persists_after_display [of ios_world testData init_state]
      dispatch_persists_after_display [of display_fails_world testData init_state]
    by (simp add: t)
qed

text \<open>
  C1, as the claim states it, fails: with the test notification and a display call that
  throws, \<open>sendLocalNotification\<close> makes no \<open>createNotification\<close> call and the store
  stays empty.
\<close>

theorem dispatch_display_failure_counterexample:
  "created (events_of (sendLocalNotification display_fails_world testData) init_state) = []
   \<and> store (snd (sendLocalNotification display_fails_world testData init_state)) = []"
  by (simp add: sendLocalNotification_unfold world_defs events_of_def init_state_def)

text \<open>
  C7. \<open>sendLocalNotification\<close> never throws: it always returns \<open>void\<close>. An error
  thrown by the display call is logged, and so is an error thrown by
  \<open>createNotification\<close> after a display call that succeeded.
\<close>

theorem dispatch_never_raises:
  "result_of (sendLocalNotification w d) s = Inr ()
   \<and> (\<forall>e. scheduleNotificationAsync w
            \<lparr>input_content = \<lparr>content_title = title d, content_body = message d,
                               content_data = data d\<rparr>, trigger = None\<rparr> = Inl e
        \<longrightarrow> ConsoleError ''Error sending local notification:'' e
              \<in> set (events_of (sendLocalNotification w d) s))
   \<and> (\<forall>e x. scheduleNotificationAsync w
            \<lparr>input_content = \<lparr>content_title = title d, content_body = message d,
                               content_data = data d\<rparr>, trigger = None\<rparr> = Inr x
          \<and> createNotification_failure w
              \<lparr>n_type = type d, n_title = title d, n_message = message d, n_data = data d\<rparr> = Some e
        \<longrightarrow> ConsoleError ''Error sending local notification:'' e
              \<in> set (events_of (sendLocalNotification w d) s))"
  by (simp add: sendLocalNotification_unfold events_of_def result_of_def Let_def
      split: sum.splits option.splits)

theorem dispatch_never_raises_witness:
  "scheduleNotificationAsync display_fails_world
      \<lparr>input_content = \<lparr>content_title = title testData, content_body = message testData,
                         content_data = data testData\<rparr>, trigger = None\<rparr>
       = Inl (Error ''display refused'')
   \<and> result_of (sendLocalNotification display_fails_world testData) init_state = Inr ()
   \<and> ConsoleError ''Error sending local notification:'' (Error ''display refused'')
       \<in> set (events_of (sendLocalNotification display_fails_world testData) init_state)
   \<and> scheduleNotificationAsync persist_fails_world
      \<lparr>input_content = \<lparr>content_title = title testData, content_body = message testData,
                         content_data = data testData\<rparr>, trigger = None\<rparr> = Inr ''local-1''
   \<and> createNotification_failure persist_fails_world
        \<lparr>n_type = type testData, n_title = title testData, n_message = message testData,
         n_data = data testData\<rparr> = Some (Error ''insert failed'')
   \<and> result_of (sendLocalNotification persist_fails_world testData) init_state = Inr ()
   \<and> ConsoleError ''Error sending local notification:'' (Error ''insert failed'')
       \<in> set (events_of (sendLocalNotification persist_fails_world testData) init_state)"
proof -
  have a: "scheduleNotificationAsync display_fails_world
      \<lparr>input_content = \<lparr>content_title = title testData, content_body = message testData,
                         content_data = data testData\<rparr>, trigger = None\<rparr>
       = Inl (Error ''display refused'')"
    by (simp add: world_defs)
  have b: "scheduleNotificationAsync persist_fails_world
      \<lparr>input_content = \<lparr>content_title = title testData, content_body = message testData,
                         content_data = data testData\<rparr>, trigger = None\<rparr> = Inr ''local-1''"
    "createNotification_failure persist_fails_world
        \<lparr>n_type = type testData, n_title = title testData, n_message = message testData,
         n_data = data testData\<rparr> = Some (Error ''insert failed'')"
    by (simp_all add: world_defs)
  show ?thesis
    using a b
      dispatch_never_raises [of display_fails_world testData init_state]
      dispatch_never_raises [of persist_fails_world testData init_state]
    by simp
qed

section \<open>Properties of the ListenerHub\<close>

text \<open>
  C2, as amended. \<open>setupNotificationListeners\<close> takes no handler. It registers exactly
  one received-while-foregrounded listener and one tap listener, both its own. On a tap
  its listener logs the response and, when the payload has \<open>type\<close> equal to \<open>signal\<close>
  and a truthy \<open>signal_id\<close>, logs that \<open>signal_id\<close>; it does nothing else, so the
  payload is forwarded to no one.
\<close>

theorem attach_registers_two_listeners_and_logs_taps:
  "result_of setupNotificationListeners s
     = Inr (\<lparr>sub_id = next_sub s, sub_event = NotificationReceived\<rparr>,
            \<lparr>sub_id = Suc (next_sub s), sub_event = NotificationResponseReceived\<rparr>)
   \<and> events_of setupNotificationListeners s
     = [AddNotificationReceivedListener, AddNotificationResponseReceivedListener]
   \<and> subscriptions (snd (setupNotificationListeners s))
     = subscriptions s @ [\<lparr>sub_id = next_sub s, sub_event = NotificationReceived\<rparr>,
          \<lparr>sub_id = Suc (next_sub s), sub_event = NotificationResponseReceived\<rparr>]
   \<and> responseListener_callback response s =
     (Inr (), s\<lparr>trace := trace s @
        ConsoleLog ''Notification response:'' [LResponse response] #
        (if optional_get (content_data (content (request (notification response)))) ''type''
              = JStr ''signal''
            \<and> truthy (optional_get (content_data (content (request (notification response))))
                 ''signal_id'')
         then [ConsoleLog ''Navigate to signal:''
                 [LVal (optional_get (content_data (content (request (notification response))))
                    ''signal_id'')]]
         else [])\<rparr>)"
  by (simp add: setupNotificationListeners_unfold responseListener_callback_unfold
      result_of_def events_of_def)

text \<open>
  C2, as the claim states it, fails: on a tap whose payload names the signal
  \<open>test-123\<close>, the hub's listener reads \<open>type\<close> and \<open>signal_id\<close> out of the payload
  and logs the signal itself, where forwarding to a caller's handler that records its
  argument would have handed that handler the whole payload.
\<close>

theorem attach_forwarding_counterexample:
  "events_of (responseListener_callback tap_on_signal) init_state
     = [ConsoleLog ''Notification response:'' [LResponse tap_on_signal],
        ConsoleLog ''Navigate to signal:'' [LVal (JStr ''test-123'')]]
   \<and> events_of (spec_onOpened_forwarding recording_onOpened tap_on_signal) init_state
     = [ConsoleLog ''onOpened''
          [LVal (JObj [(''type'', JStr ''signal''), (''signal_id'', JStr ''test-123'')])]]
   \<and> responseListener_callback tap_on_signal init_state
     \<noteq> spec_onOpened_forwarding recording_onOpened tap_on_signal init_state"
  by (simp add: responseListener_callback_unfold spec_onOpened_forwarding_def
      recording_onOpened_def console_log_def tap_on_signal_def init_state_def events_of_def
      optional_get_def)

text \<open>The teardown closure, on a platform that removes what it is asked to remove.\<close>

lemma teardown_ok:
  assumes contract: "\<forall>sub subs. \<exists>subs'. removeSubscription w sub subs = Inr subs'
                       \<and> set subs' = set subs - {sub}"
  shows "\<exists>s'. teardown w c s = (Inr (), s')
           \<and> set (subscriptions s') = set (subscriptions s) - {fst c, snd c}"
proof -
  obtain subs1 where 1: "removeSubscription w (fst c) (subscriptions s) = Inr subs1"
    and s1: "set subs1 = set (subscriptions s) - {fst c}"
    using contract by blast
  obtain subs2 where 2: "removeSubscription w (snd c) subs1 = Inr subs2"
    and s2: "set subs2 = set subs1 - {snd c}"
    using contract by blast
  have "set subs2 = set (subscriptions s) - {fst c, snd c}"
    using s1 s2 by blast
  then show ?thesis
    by (simp add: teardown_unfold [OF 1 2])
qed

lemma setup_result:
  assumes attach: "setupNotificationListeners s = (Inr c, s1)"
  shows "subscriptions s1 = subscriptions s @ [fst c, snd c]"
proof -
  have "fst (setupNotificationListeners s) = Inr c" "snd (setupNotificationListeners s) = s1"
    using attach by simp_all
  then have c: "c = (\<lparr>sub_id = next_sub s, sub_event = NotificationReceived\<rparr>,
           \<lparr>sub_id = Suc (next_sub s), sub_event = NotificationResponseReceived\<rparr>)"
    and s1: "subscriptions s1 = subscriptions s @
          [\<lparr>sub_id = next_sub s, sub_event = NotificationReceived\<rparr>,
           \<lparr>sub_id = Suc (next_sub s), sub_event = NotificationResponseReceived\<rparr>]"
    by (auto simp add: setupNotificationListeners_unfold)
  show ?thesis by (simp add: c s1)
qed

text \<open>Two calls of the closure on such a platform.\<close>

lemma teardown_twice_under_contract:
  assumes contract: "\<forall>sub subs. \<exists>subs'. removeSubscription w sub subs = Inr subs'
                       \<and> set subs' = set subs - {sub}"
    and attach: "setupNotificationListeners s = (Inr c, s1)"
  shows "result_of (teardown w c) s1 = Inr ()
       \<and> result_of (teardown w c) (snd (teardown w c s1)) = Inr ()
       \<and> set (subscriptions (snd (teardown w c (snd (teardown w c s1)))))
           = set (subscriptions s) - {fst c, snd c}
       \<and> fst c \<notin> set (subscriptions (snd (teardown w c (snd (teardown w c s1)))))
       \<and> snd c \<notin> set (subscriptions (snd (teardown w c (snd (teardown w c s1)))))
       \<and> (subscriptions s = []
            \<longrightarrow> subscriptions (snd (teardown w c (snd (teardown w c s1)))) = [])"
proof -
  from teardown_ok [OF contract, of c s1]
  obtain s2 where t1: "teardown w c s1 = (Inr (), s2)"
    and a2: "set (subscriptions s2) = set (subscriptions s1) - {fst c, snd c}"
    by (elim exE conjE)
  from teardown_ok [OF contract, of c s2]
  obtain s3 where t2: "teardown w c s2 = (Inr (), s3)"
    and a3: "set (subscriptions s3) = set (subscriptions s2) - {fst c, snd c}"
    by (elim exE conjE)
  have a1: "set (subscriptions s1) = set (subscriptions s) \<union> {fst c, snd c}"
    by (simp add: setup_result [OF attach])
  have a: "set (subscriptions s3) = set (subscriptions s) - {fst c, snd c}"
    unfolding a3 a2 a1 by blast
  have e1: "snd (teardown w c s1) = s2" by (simp add: t1)
  have e2: "snd (teardown w c s2) = s3" by (simp add: t2)
  have r1: "result_of (teardown w c) s1 = Inr ()" by (simp add: result_of_def t1)
  have r2: "result_of (teardown w c) s2 = Inr ()" by (simp add: result_of_def t2)
  have m1: "fst c \<notin> set (subscriptions s3)" unfolding a by simp
  have m2: "snd c \<notin> set (subscriptions s3)" unfolding a by simp
  have z: "subscriptions s = [] \<longrightarrow> subscriptions s3 = []"
  proof
    assume "subscriptions s = []"
    then have "set (subscriptions s3) = {}" unfolding a by simp
    then show "subscriptions s3 = []" by simp
  qed
  show ?thesis
    unfolding e1 e2 using r1 r2 a m1 m2 z by (intro conjI)
qed

text \<open>
  C8, as amended. The closure returned by \<open>setupNotificationListeners\<close> has no guard
  of its own: a call asks the platform to remove the received subscription and then the
  response subscription, and throws exactly when one of these removals throws. If the
  first removal throws, the second is not attempted and the active subscriptions are
  left as they were; if the second throws, they are left as the first removal left
  them. On a platform whose removal never throws and leaves active exactly the
  subscriptions other than the one given, calling the closure twice on the same
  attachment does not throw, afterwards neither subscription of the attachment is
  active, and if none was active before the attachment, none is active at all.
\<close>

theorem teardown_raises_when_removal_raises:
  "(\<forall>e. removeSubscription w (fst c) (subscriptions s) = Inl e
       \<longrightarrow> teardown w c s
           = (Inl e, s\<lparr>trace := trace s @ [RemoveNotificationSubscription (fst c)]\<rparr>))
   \<and> (\<forall>subs1 e. removeSubscription w (fst c) (subscriptions s) = Inr subs1
                \<and> removeSubscription w (snd c) subs1 = Inl e
       \<longrightarrow> teardown w c s
           = (Inl e, s\<lparr>trace := trace s @ [RemoveNotificationSubscription (fst c),
                         RemoveNotificationSubscription (snd c)], subscriptions := subs1\<rparr>))
   \<and> (\<forall>subs1 subs2. removeSubscription w (fst c) (subscriptions s) = Inr subs1
                \<and> removeSubscription w (snd c) subs1 = Inr subs2
       \<longrightarrow> teardown w c s
           = (Inr (), s\<lparr>trace := trace s @ [RemoveNotificationSubscription (fst c),
                         RemoveNotificationSubscription (snd c)], subscriptions := subs2\<rparr>))
   \<and> ((\<forall>sub subs. \<exists>subs'. removeSubscription w sub subs = Inr subs'
                      \<and> set subs' = set subs - {sub})
        \<and> setupNotificationListeners s0 = (Inr c, s1)
       \<longrightarrow> result_of (teardown w c) s1 = Inr ()
         \<and> result_of (teardown w c) (snd (teardown w c s1)) = Inr ()
         \<and> fst c \<notin> set (subscriptions (snd (teardown w c (snd (teardown w c s1)))))
         \<and> snd c \<notin> set (subscriptions (snd (teardown w c (snd (teardown w c s1)))))
         \<and> (subscriptions s0 = []
              \<longrightarrow> subscriptions (snd (teardown w c (snd (teardown w c s1)))) = []))"
proof (intro conjI allI impI)
  fix e
  assume "removeSubscription w (fst c) (subscriptions s) = Inl e"
  then show "teardown w c s
           = (Inl e, s\<lparr>trace := trace s @ [RemoveNotificationSubscription (fst c)]\<rparr>)"
    by (simp add: teardown_cases)
next
  fix subs1 e
  assume "removeSubscription w (fst c) (subscriptions s) = Inr subs1
                \<and> removeSubscription w (snd c) subs1 = Inl e"
  then show "teardown w c s
           = (Inl e, s\<lparr>trace := trace s @ [RemoveNotificationSubscription (fst c),
                         RemoveNotificationSubscription (snd c)], subscriptions := subs1\<rparr>)"
    by (simp add: teardown_cases)
next
  fix subs1 subs2
  assume "removeSubscription w (fst c) (subscriptions s) = Inr subs1
                \<and> removeSubscription w (snd c) subs1 = Inr subs2"
  then show "teardown w c s
           = (Inr (), s\<lparr>trace := trace s @ [RemoveNotificationSubscription (fst c),
                         RemoveNotificationSubscription (snd c)], subscriptions := subs2\<rparr>)"
    by (simp add: teardown_cases)
next
  assume h: "(\<forall>sub subs. \<exists>subs'. removeSubscription w sub subs = Inr subs'
                      \<and> set subs' = set subs - {sub})
        \<and> setupNotificationListeners s0 = (Inr c, s1)"
  note t = teardown_twice_under_contract [OF conjunct1 [OF h] conjunct2 [OF h]]
  from t show "result_of (teardown w c) s1 = Inr ()" by (elim conjE)
  from t show "result_of (teardown w c) (snd (teardown w c s1)) = Inr ()" by (elim conjE)
  from t show "fst c \<notin> set (subscriptions (snd (teardown w c (snd (teardown w c s1)))))"
    by (elim conjE)
  from t show "snd c \<notin> set (subscriptions (snd (teardown w c (snd (teardown w c s1)))))"
    by (elim conjE)
  assume "subscriptions s0 = []"
  with t show "subscriptions (snd (teardown w c (snd (teardown w c s1)))) = []"
    by (elim conjE) (rule mp)
qed

theorem teardown_raises_when_removal_raises_witness:
  "removeSubscription strict_world (fst first_attachment) (subscriptions init_state)
     = Inl (Error ''not subscribed'')
   \<and> teardown strict_world first_attachment init_state
     = (Inl (Error ''not subscribed''),
        init_state\<lparr>trace := trace init_state
          @ [RemoveNotificationSubscription (fst first_attachment)]\<rparr>)
   \<and> removeSubscription strict_world (fst first_attachment) (subscriptions half_attached_state)
     = Inr []
   \<and> removeSubscription strict_world (snd first_attachment) [] = Inl (Error ''not subscribed'')
   \<and> teardown strict_world first_attachment half_attached_state
     = (Inl (Error ''not subscribed''),
        half_attached_state\<lparr>trace := trace half_attached_state
          @ [RemoveNotificationSubscription (fst first_attachment),
             RemoveNotificationSubscription (snd first_attachment)],
          subscriptions := []\<rparr>)
   \<and> (\<forall>sub subs. \<exists>subs'. removeSubscription ios_world sub subs = Inr subs'
          \<and> set subs' = set subs - {sub})
   \<and> setupNotificationListeners init_state
     = (Inr first_attachment, snd (setupNotificationListeners init_state))
   \<and> subscriptions init_state = []
   \<and> result_of (teardown ios_world first_attachment)
        (snd (setupNotificationListeners init_state)) = Inr ()
   \<and> result_of (teardown ios_world first_attachment)
        (snd (teardown ios_world first_attachment
           (snd (setupNotificationListeners init_state)))) = Inr ()
   \<and> subscriptions (snd (teardown ios_world first_attachment
        (snd (teardown ios_world first_attachment
           (snd (setupNotificationListeners init_state)))))) = []"
proof -
  have a: "removeSubscription strict_world (fst first_attachment) (subscriptions init_state)
     = Inl (Error ''not subscribed'')"
    by (simp add: strict_world_def ios_world_def init_state_def)
  have b: "removeSubscription strict_world (fst first_attachment)
             (subscriptions half_attached_state) = Inr []"
    "removeSubscription strict_world (snd first_attachment) [] = Inl (Error ''not subscribed'')"
    by (simp_all add: strict_world_def ios_world_def half_attached_state_def init_state_def
        first_attachment_def)
  have contract: "\<forall>sub subs. \<exists>subs'. removeSubscription ios_world sub subs = Inr subs'
       \<and> set subs' = set subs - {sub}"
    by (simp add: ios_world_def)
  have n: "subscriptions init_state = []"
    by (simp add: init_state_def)
  have attach: "setupNotificationListeners init_state
     = (Inr first_attachment, snd (setupNotificationListeners init_state))"
    by (simp add: setupNotificationListeners_unfold first_attachment_def init_state_def)
  show ?thesis
    using a b contract n attach
      teardown_raises_when_removal_raises
        [of strict_world first_attachment init_state init_state init_state]
      teardown_raises_when_removal_raises
        [of strict_world first_attachment half_attached_state init_state init_state]
      teardown_raises_when_removal_raises
        [of ios_world first_attachment init_state init_state
            "snd (setupNotificationListeners init_state)"]
    by simp
qed

text \<open>
  C8, as the claim states it, fails: on a platform whose removal throws for a
  subscription that is not active, the first call of the closure returned by the
  session's first attachment returns, and the second call throws.
\<close>

theorem teardown_second_call_counterexample:
  "result_of setupNotificationListeners init_state = Inr first_attachment
   \<and> result_of (teardown strict_world first_attachment)
        (snd (setupNotificationListeners init_state)) = Inr ()
   \<and> result_of (teardown strict_world first_attachment)
        (snd (teardown strict_world first_attachment
           (snd (setupNotificationListeners init_state))))
       = Inl (Error ''not subscribed'')"
  by (simp add: result_of_def setupNotificationListeners_unfold teardown_cases
      first_attachment_def strict_world_def ios_world_def init_state_def)

section \<open>The read flag\<close>

lemma requestNotificationPermissions_store:
  "store (snd (requestNotificationPermissions w s)) = store s"
proof -
  obtain b evs where "requestNotificationPermissions w s = (Inr b, s\<lparr>trace := trace s @ evs\<rparr>)"
    using requestNotificationPermissions_total by blast
  then show ?thesis by simp
qed

lemma registerForPushNotifications_store:
  "store (snd (registerForPushNotifications w userId s)) = store s"
proof -
  obtain b evs where r: "requestNotificationPermissions w s = (Inr b, s\<lparr>trace := trace s @ evs\<rparr>)"
    using requestNotificationPermissions_total by blast
  show ?thesis
    by (simp add: registerForPushNotifications_unfold [OF r] split: sum.splits)
qed

lemma sendLocalNotification_store:
  "\<exists>new. store (snd (sendLocalNotification w d s)) = store s @ new \<and> (\<forall>r\<in>set new. \<not> read r)"
  by (simp add: sendLocalNotification_unfold Let_def split: sum.splits option.splits)

lemma removeNotificationSubscription_store:
  "store (snd (removeNotificationSubscription w sub s)) = store s"
  by (simp add: removeNotificationSubscription_def Let_def split: sum.splits)

lemma teardown_store: "store (snd (teardown w c s)) = store s"
proof (cases "removeNotificationSubscription w (fst c) s")
  case (Pair r s1)
  have "store s1 = store s"
    using removeNotificationSubscription_store [of w "fst c" s] Pair by simp
  then show ?thesis
    using Pair removeNotificationSubscription_store [of w "snd c" s1]
    by (cases r) (simp_all add: teardown_def io_bind_def)
qed

lemma run_op_store:
  "\<exists>new. store (run_op w op s) = store s @ new \<and> (\<forall>r\<in>set new. \<not> read r)"
proof (cases op)
  case (Dispatch d)
  then show ?thesis using sendLocalNotification_store [of w d s] by simp
next
  case DispatchTest
  then show ?thesis using sendLocalNotification_store [of w testData s]
    by (simp add: sendTestNotification_def)
qed (simp_all add: requestNotificationPermissions_store registerForPushNotifications_store
      setupNotificationListeners_unfold teardown_store notificationListener_callback_def
      console_log_def responseListener_callback_unfold NotificationSheet_def io_return_def)

lemma run_ops_store:
  "\<exists>new. store (run_ops ops s) = store s @ new \<and> (\<forall>r\<in>set new. \<not> read r)"
proof (induction ops arbitrary: s)
  case Nil
  then show ?case by simp
next
  case (Cons p ops)
  obtain w op where p: "p = (w, op)" by (cases p)
  obtain new1 where 1: "store (run_op w op s) = store s @ new1" "\<forall>r\<in>set new1. \<not> read r"
    using run_op_store by blast
  obtain new2 where 2: "store (run_ops ops (run_op w op s)) = store (run_op w op s) @ new2"
    "\<forall>r\<in>set new2. \<not> read r"
    using Cons.IH by blast
  have "store (run_ops (p # ops) s) = store s @ (new1 @ new2)"
    using 1 2 by (simp add: p)
  moreover have "\<forall>r\<in>set (new1 @ new2). \<not> read r" using 1 2 by auto
  ultimately show ?case by blast
qed

text \<open>
  C9. Over any sequence of operations of the subsystem (requesting permission,
  registering, dispatching, attaching and tearing down listeners, the two listeners
  running, showing the sheet), in any worlds: the store only grows at its end, every
  record added has \<open>read = false\<close>, and every record already there is left as it was;
  so a record that is read stays read. No operation of the subsystem sets \<open>read\<close>.
\<close>

theorem read_flag_monotonic:
  "(\<exists>new. store (run_ops ops s) = store s @ new \<and> (\<forall>r\<in>set new. \<not> read r))
   \<and> (\<forall>i<length (store s). store (run_ops ops s) ! i = store s ! i)
   \<and> (\<forall>i<length (store s). read (store s ! i) \<longrightarrow> read (store (run_ops ops s) ! i))"
proof -
  obtain new where n: "store (run_ops ops s) = store s @ new" "\<forall>r\<in>set new. \<not> read r"
    using run_ops_store by blast
  then show ?thesis by (simp add: nth_append)
qed

theorem read_flag_monotonic_witness:
  "0 < length (store one_read_state)
   \<and> read (store one_read_state ! 0)
   \<and> store (run_ops session_ops one_read_state) ! 0 = store one_read_state ! 0
   \<and> read (store (run_ops session_ops one_read_state) ! 0)
   \<and> length (store (run_ops session_ops one_read_state)) = 2
   \<and> \<not> read (store (run_ops session_ops one_read_state) ! 1)"
proof -
  have l: "store one_read_state
     = [\<lparr>rec_id = 0, kind = alert, rec_title = ''Stop Loss Hit'',
         rec_message = ''XAG/USD position closed at stop loss'',
         payload = JUndefined, created_at = 0, read = True\<rparr>]"
    by (simp add: one_read_state_def init_state_def)
  have d: "store (run_ops session_ops one_read_state)
     = store one_read_state @
       [\<lparr>rec_id = 1, kind = signal, rec_title = ''Test Signal Alert'',
         rec_message = ''This is a test notification from your trading app!'',
         payload = JObj [(''signal_id'', JStr ''test-123''), (''pair'', JStr ''XAU/USD'')],
         created_at = 7, read = False\<rparr>]"
    by (simp add: session_ops_def sendTestNotification_def sendLocalNotification_unfold
        responseListener_callback_unfold NotificationSheet_def io_return_def world_defs
        testData_def one_read_state_def init_state_def)
  show ?thesis
    using read_flag_monotonic [of session_ops one_read_state] by (simp add: d l)
qed

end
